theory Spec2Isabelle
  imports Main "HOL-Library.AList"
begin

section \<open>JavaScript values used by the signaling server\<close>

text \<open>
  A JavaScript \<^verbatim>\<open>Map\<close> keeps its entries in insertion order, has at most one entry per
  key, replaces the value in place when \<^verbatim>\<open>set\<close> is called on a key that is present and
  appends the entry otherwise. It is modelled as an association list:
  \<^verbatim>\<open>has\<close>/\<^verbatim>\<open>get\<close> are \<^const>\<open>map_of\<close>, \<^verbatim>\<open>set\<close> is \<^const>\<open>AList.update\<close>,
  \<^verbatim>\<open>delete\<close> is \<^const>\<open>AList.delete\<close>, \<^verbatim>\<open>size\<close> is \<^const>\<open>length\<close> and
  \<^verbatim>\<open>values()\<close> is \<open>map snd\<close>.

  A field of a message that the client may leave out (\<^verbatim>\<open>undefined\<close>) is a
  \<open>string option\<close>. \<^verbatim>\<open>!x\<close> holds for \<^verbatim>\<open>undefined\<close> and for the empty string.
\<close>

definition truthy :: "string option \<Rightarrow> bool" where
  "truthy x = (case x of None \<Rightarrow> False | Some s \<Rightarrow> s \<noteq> [])"

section \<open>Room manager (server/roomManager.js)\<close>

record participant =
  odId :: string
  name :: string
  socketId :: string

text \<open>The objects \<^verbatim>\<open>{ odId, name }\<close> that \<^verbatim>\<open>getParticipantsList\<close> builds.\<close>

record participantInfo =
  info_odId :: string
  info_name :: string

record room =
  room_id :: string
  participants :: "(string \<times> participant) list"
  createdAt :: nat

type_synonym rooms = "(string \<times> room) list"

definition MAX_PARTICIPANTS :: nat where
  "MAX_PARTICIPANTS = 4"

text \<open>
  The module state \<^verbatim>\<open>rooms\<close> is passed explicitly; \<open>now\<close> is the value of
  \<^verbatim>\<open>new Date()\<close> at the call. Room objects are mutated in place in the source, so
  every function that changes a room stores the changed room back under its key.
\<close>

definition getOrCreateRoom :: "nat \<Rightarrow> string \<Rightarrow> rooms \<Rightarrow> room \<times> rooms" where
  "getOrCreateRoom now rid rs =
     (case map_of rs rid of
        None \<Rightarrow>
          (let r = \<lparr>room_id = rid, participants = [], createdAt = now\<rparr>
           in (r, AList.update rid r rs))
      | Some r \<Rightarrow> (r, rs))"

definition roomExists :: "string \<Rightarrow> rooms \<Rightarrow> bool" where
  "roomExists rid rs = (map_of rs rid \<noteq> None)"

definition getParticipantsList :: "string \<Rightarrow> rooms \<Rightarrow> participantInfo list" where
  "getParticipantsList rid rs =
     (case map_of rs rid of
        None \<Rightarrow> []
      | Some r \<Rightarrow>
          map (\<lambda>p. \<lparr>info_odId = odId p, info_name = name p\<rparr>) (map snd (participants r)))"

text \<open>
  The result object \<^verbatim>\<open>{ success, error?, participants? }\<close> is a sum: \<open>Inl\<close> carries the
  error text of \<^verbatim>\<open>success: false\<close>, \<open>Inr\<close> the participant list of \<^verbatim>\<open>success: true\<close>.
\<close>

definition addParticipant ::
  "nat \<Rightarrow> string \<Rightarrow> participant \<Rightarrow> rooms \<Rightarrow> (string + participantInfo list) \<times> rooms" where
  "addParticipant now rid p rs =
     (let (r, rs1) = getOrCreateRoom now rid rs in
      if length (participants r) \<ge> MAX_PARTICIPANTS then (Inl ''Room is full'', rs1)
      else
        (let r' = (if map_of (participants r) (odId p) \<noteq> None
                   then r\<lparr>participants := AList.update (odId p) p (participants r)\<rparr>
                   else r\<lparr>participants := AList.update (odId p) p (participants r)\<rparr>);
             rs2 = AList.update rid r' rs1
         in (Inr (getParticipantsList rid rs2), rs2)))"

definition removeParticipant :: "string \<Rightarrow> string \<Rightarrow> rooms \<Rightarrow> rooms" where
  "removeParticipant rid u rs =
     (case map_of rs rid of
        None \<Rightarrow> rs
      | Some r \<Rightarrow>
          (let r' = r\<lparr>participants := AList.delete u (participants r)\<rparr>;
               rs1 = AList.update rid r' rs
           in if length (participants r') = 0 then AList.delete rid rs1 else rs1))"

text \<open>
  The two nested \<^verbatim>\<open>for ... of\<close> loops of \<^verbatim>\<open>removeParticipantBySocketId\<close>: the inner one
  finds the first participant of a room with the given socket id, the outer one walks the
  rooms in insertion order and stops at the first room where the inner one succeeds.
\<close>

fun findBySocketId :: "string \<Rightarrow> (string \<times> participant) list \<Rightarrow> string option" where
  "findBySocketId s [] = None"
| "findBySocketId s ((u, p) # ps) = (if socketId p = s then Some u else findBySocketId s ps)"

fun findRoomBySocketId :: "string \<Rightarrow> rooms \<Rightarrow> (string \<times> string) option" where
  "findRoomBySocketId s [] = None"
| "findRoomBySocketId s ((rid, r) # rs) =
     (case findBySocketId s (participants r) of
        Some u \<Rightarrow> Some (rid, u)
      | None \<Rightarrow> findRoomBySocketId s rs)"

definition removeParticipantBySocketId ::
  "string \<Rightarrow> rooms \<Rightarrow> (string \<times> string) option \<times> rooms" where
  "removeParticipantBySocketId s rs =
     (case findRoomBySocketId s rs of
        Some (rid, u) \<Rightarrow> (Some (rid, u), removeParticipant rid u rs)
      | None \<Rightarrow> (None, rs))"

text \<open>
  \<^verbatim>\<open>participant?.socketId || null\<close>: \<^verbatim>\<open>null\<close> when the room or the participant is
  missing, and also when the stored socket id is the empty string.
\<close>

definition getParticipantSocketId :: "string \<Rightarrow> string \<Rightarrow> rooms \<Rightarrow> string option" where
  "getParticipantSocketId rid u rs =
     (case map_of rs rid of
        None \<Rightarrow> None
      | Some r \<Rightarrow>
          (case map_of (participants r) u of
             None \<Rightarrow> None
           | Some p \<Rightarrow> (if socketId p = [] then None else Some (socketId p))))"

record stats =
  roomCount :: nat
  totalParticipants :: nat

definition getStats :: "rooms \<Rightarrow> stats" where
  "getStats rs =
     \<lparr>roomCount = length rs,
      totalParticipants = foldl (\<lambda>total r. total + length (participants r)) 0 (map snd rs)\<rparr>"

text \<open>
  The periodic sweep, with \<open>now\<close> the value of \<^verbatim>\<open>Date.now()\<close>: it deletes the rooms that
  are empty and older than \<^verbatim>\<open>MAX_AGE\<close>, one hour in milliseconds.
\<close>

definition MAX_AGE :: int where
  "MAX_AGE = 60 * 60 * 1000"

definition cleanupEmptyRooms :: "nat \<Rightarrow> rooms \<Rightarrow> rooms" where
  "cleanupEmptyRooms now rs =
     filter (\<lambda>(rid, r). \<not> (length (participants r) = 0 \<and>
                                 int now - int (createdAt r) > MAX_AGE)) rs"

section \<open>Signaling server (server/index.js)\<close>

text \<open>
  What a handler knows of its connection: the id Socket.IO gave it, the two fields the
  join handler stores in \<^verbatim>\<open>socket.data\<close>, and the Socket.IO rooms it has joined.
\<close>

record socket =
  socket_id :: string
  data_roomId :: "string option"
  data_odId :: "string option"
  socketRooms :: "string list"

text \<open>
  The three ways the server sends: \<^verbatim>\<open>socket.emit\<close> reaches the client of the handling
  socket only, \<^verbatim>\<open>socket.to(roomId).emit\<close> every socket of the Socket.IO room except the
  handling one, \<^verbatim>\<open>io.to(socketId).emit\<close> the socket with that id.
\<close>

datatype dest =
  SocketEmit string
| SocketToRoom string string
| IoTo string

text \<open>
  The events with their payloads. The \<^verbatim>\<open>offer\<close>, \<^verbatim>\<open>answer\<close> and \<^verbatim>\<open>candidate\<close>
  bodies are opaque to the server and are strings here; the first argument of the three
  relayed events is the payload's \<^verbatim>\<open>fromUserId\<close> field.
\<close>

datatype event =
  RoomError string
| RoomFull
| RoomJoined "participantInfo list"
| UserJoined string string
| UserLeft string
| OfferEvent "string option" string
| AnswerEvent "string option" string
| IceCandidateEvent "string option" string

record joinRoomMsg =
  jr_roomId :: "string option"
  jr_userId :: "string option"
  jr_name :: "string option"

record leaveRoomMsg =
  lr_roomId :: "string option"
  lr_userId :: "string option"

record signalMsg =
  targetUserId :: "string option"
  body :: string
  fromUserId :: "string option"

text \<open>\<^verbatim>\<open>name || `User ${userId.substring(0, 4)}`\<close>\<close>

definition displayName :: "string option \<Rightarrow> string \<Rightarrow> string" where
  "displayName n uid =
     (case n of
        None \<Rightarrow> ''User '' @ take 4 uid
      | Some s \<Rightarrow> (if s = [] then ''User '' @ take 4 uid else s))"

text \<open>
  The body of each handler, run on the fields of a payload it could destructure: it takes
  the handling socket, the message and the rooms, and returns the socket and the rooms as
  it leaves them, with the events it emitted in order.
\<close>

definition joinRoomHandler ::
  "nat \<Rightarrow> socket \<Rightarrow> joinRoomMsg \<Rightarrow> rooms \<Rightarrow> socket \<times> rooms \<times> (dest \<times> event) list" where
  "joinRoomHandler now sock m rs =
     (if \<not> truthy (jr_roomId m) \<or> \<not> truthy (jr_userId m)
      then (sock, rs, [(SocketEmit (socket_id sock), RoomError ''Invalid room ID or user ID'')])
      else
        (case (jr_roomId m, jr_userId m) of
           (Some rid, Some uid) \<Rightarrow>
             (case addParticipant now rid
                     \<lparr>odId = uid, name = displayName (jr_name m) uid, socketId = socket_id sock\<rparr> rs of
                (Inl err, rs') \<Rightarrow> (sock, rs', [(SocketEmit (socket_id sock), RoomFull)])
              | (Inr ps, rs') \<Rightarrow>
                  (sock\<lparr>data_roomId := Some rid, data_odId := Some uid,
                        socketRooms := List.insert rid (socketRooms sock)\<rparr>,
                   rs',
                   [(SocketEmit (socket_id sock), RoomJoined ps),
                    (SocketToRoom (socket_id sock) rid,
                       UserJoined uid (displayName (jr_name m) uid))]))
         | _ \<Rightarrow> (sock, rs, [(SocketEmit (socket_id sock), RoomError ''Invalid room ID or user ID'')])))"

definition leaveRoomHandler ::
  "socket \<Rightarrow> leaveRoomMsg \<Rightarrow> rooms \<Rightarrow> socket \<times> rooms \<times> (dest \<times> event) list" where
  "leaveRoomHandler sock m rs =
     (if \<not> truthy (lr_roomId m) \<or> \<not> truthy (lr_userId m) then (sock, rs, [])
      else
        (case (lr_roomId m, lr_userId m) of
           (Some rid, Some uid) \<Rightarrow>
             (sock\<lparr>socketRooms := removeAll rid (socketRooms sock)\<rparr>,
              removeParticipant rid uid rs,
              [(SocketToRoom (socket_id sock) rid, UserLeft uid)])
         | _ \<Rightarrow> (sock, rs, [])))"

text \<open>
  The relays read the room from \<^verbatim>\<open>socket.data.roomId\<close> and the target's socket from
  the room manager. \<^verbatim>\<open>getParticipantSocketId(roomId, undefined)\<close> finds no participant,
  as every key of the map is a string.
\<close>

definition targetSocket :: "socket \<Rightarrow> signalMsg \<Rightarrow> rooms \<Rightarrow> string option" where
  "targetSocket sock m rs =
     (case data_roomId sock of
        None \<Rightarrow> None
      | Some rid \<Rightarrow>
          (if rid = [] then None
           else (case targetUserId m of
                   None \<Rightarrow> None
                 | Some t \<Rightarrow> getParticipantSocketId rid t rs)))"

definition offerHandler :: "socket \<Rightarrow> signalMsg \<Rightarrow> rooms \<Rightarrow> (dest \<times> event) list" where
  "offerHandler sock m rs =
     (case targetSocket sock m rs of
        None \<Rightarrow> []
      | Some targetSocketId \<Rightarrow> [(IoTo targetSocketId, OfferEvent (fromUserId m) (body m))])"

definition answerHandler :: "socket \<Rightarrow> signalMsg \<Rightarrow> rooms \<Rightarrow> (dest \<times> event) list" where
  "answerHandler sock m rs =
     (case targetSocket sock m rs of
        None \<Rightarrow> []
      | Some targetSocketId \<Rightarrow> [(IoTo targetSocketId, AnswerEvent (fromUserId m) (body m))])"

definition iceCandidateHandler :: "socket \<Rightarrow> signalMsg \<Rightarrow> rooms \<Rightarrow> (dest \<times> event) list" where
  "iceCandidateHandler sock m rs =
     (case targetSocket sock m rs of
        None \<Rightarrow> []
      | Some targetSocketId \<Rightarrow>
          [(IoTo targetSocketId, IceCandidateEvent (fromUserId m) (body m))])"

definition disconnectHandler :: "socket \<Rightarrow> rooms \<Rightarrow> rooms \<times> (dest \<times> event) list" where
  "disconnectHandler sock rs =
     (case removeParticipantBySocketId (socket_id sock) rs of
        (Some (rid, u), rs') \<Rightarrow> (rs', [(SocketToRoom (socket_id sock) rid, UserLeft u)])
      | (None, rs') \<Rightarrow> (rs', []))"

text \<open>
  The listeners as \<^verbatim>\<open>socket.on\<close> registers them. Each of them but the one of
  \<^verbatim>\<open>disconnect\<close> destructures its argument in the parameter list (\<^verbatim>\<open>({ roomId, userId, name }) => ...\<close>), before the first
  statement of its body. When the client sends the event with no payload, or with
  \<^verbatim>\<open>null\<close>, the destructuring throws a \<^verbatim>\<open>TypeError\<close>, and no \<^verbatim>\<open>try\<close> in the file
  catches it; of every other payload the fields are read, a field that is not there being
  \<^verbatim>\<open>undefined\<close>. The payload is \<open>None\<close> when it is absent or \<^verbatim>\<open>null\<close>; \<open>Inl\<close> is the
  exception thrown out of the listener.
\<close>

datatype jsError = TypeError

definition destructured :: "'a option \<Rightarrow> ('a \<Rightarrow> 'b) \<Rightarrow> jsError + 'b" where
  "destructured payload handler =
     (case payload of None \<Rightarrow> Inl TypeError | Some m \<Rightarrow> Inr (handler m))"

definition joinRoomListener ::
  "nat \<Rightarrow> socket \<Rightarrow> joinRoomMsg option \<Rightarrow> rooms \<Rightarrow>
     jsError + (socket \<times> rooms \<times> (dest \<times> event) list)" where
  "joinRoomListener now sock payload rs =
     destructured payload (\<lambda>m. joinRoomHandler now sock m rs)"

definition leaveRoomListener ::
  "socket \<Rightarrow> leaveRoomMsg option \<Rightarrow> rooms \<Rightarrow>
     jsError + (socket \<times> rooms \<times> (dest \<times> event) list)" where
  "leaveRoomListener sock payload rs = destructured payload (\<lambda>m. leaveRoomHandler sock m rs)"

definition offerListener ::
  "socket \<Rightarrow> signalMsg option \<Rightarrow> rooms \<Rightarrow> jsError + (dest \<times> event) list" where
  "offerListener sock payload rs = destructured payload (\<lambda>m. offerHandler sock m rs)"

definition answerListener ::
  "socket \<Rightarrow> signalMsg option \<Rightarrow> rooms \<Rightarrow> jsError + (dest \<times> event) list" where
  "answerListener sock payload rs = destructured payload (\<lambda>m. answerHandler sock m rs)"

definition iceCandidateListener ::
  "socket \<Rightarrow> signalMsg option \<Rightarrow> rooms \<Rightarrow> jsError + (dest \<times> event) list" where
  "iceCandidateListener sock payload rs =
     destructured payload (\<lambda>m. iceCandidateHandler sock m rs)"

section \<open>Signaling client (the hook useSocket)\<close>

text \<open>
  The handler of \<^verbatim>\<open>room-joined\<close> stores the snapshot without the entry of the client's
  own \<^verbatim>\<open>userId\<close>; those of \<^verbatim>\<open>user-joined\<close> and \<^verbatim>\<open>user-left\<close> keep the list free of
  duplicates. Each is the function that \<^verbatim>\<open>setParticipants\<close> applies to the list.
\<close>

definition onRoomJoined :: "string \<Rightarrow> participantInfo list \<Rightarrow> participantInfo list" where
  "onRoomJoined userId existingParticipants =
     filter (\<lambda>p. info_odId p \<noteq> userId) existingParticipants"

definition onUserJoined :: "string \<Rightarrow> string \<Rightarrow> participantInfo list \<Rightarrow> participantInfo list" where
  "onUserJoined odUserId n prev =
     (if find (\<lambda>p. info_odId p = odUserId) prev \<noteq> None then prev
      else prev @ [\<lparr>info_odId = odUserId, info_name = n\<rparr>])"

definition onUserLeft :: "string \<Rightarrow> participantInfo list \<Rightarrow> participantInfo list" where
  "onUserLeft odUserId prev = filter (\<lambda>p. info_odId p \<noteq> odUserId) prev"

section \<open>Peer connections (the hook useWebRTC)\<close>

text \<open>
  An \<^verbatim>\<open>RTCPeerConnection\<close> as far as the hook uses it: \<open>pc_id\<close> is the object's identity
  (the number of constructor calls before its own), \<open>pc_tracks\<close> the tracks given to
  \<^verbatim>\<open>addTrack\<close>, then the two descriptions and the candidates it was given.
\<close>

record peerConnection =
  pc_id :: nat
  pc_tracks :: "string list"
  localDescription :: "string option"
  remoteDescription :: "string option"
  iceCandidates :: "string list"

text \<open>What the hooks put on the socket with \<^verbatim>\<open>sendOffer\<close>, \<^verbatim>\<open>sendAnswer\<close>, \<^verbatim>\<open>sendIceCandidate\<close>.\<close>

datatype emitted =
  SentOffer signalMsg
| SentAnswer signalMsg
| SentIceCandidate signalMsg

text \<open>
  The state of one client: the fields of \<^verbatim>\<open>useSocket\<close> (\<open>userId\<close>, \<open>isConnected\<close>,
  \<open>error\<close>, the participants), the local stream, the refs and maps of \<^verbatim>\<open>useWebRTC\<close>, the
  number of \<^verbatim>\<open>RTCPeerConnection\<close> objects constructed so far and the messages sent so far.
\<close>

record client =
  userId :: string
  isConnected :: bool
  error :: "string option"
  knownParticipants :: "participantInfo list"
  localStream :: "string list option"
  peerConnectionsRef :: "(string \<times> peerConnection) list"
  remoteStreams :: "(string \<times> string) list"
  connectionStates :: "(string \<times> string) list"
  constructed :: nat
  sent :: "emitted list"

text \<open>
  The platform calls a handler awaits, with their outcomes: \<open>None\<close> and \<open>False\<close> are a
  rejected promise, which the handler's \<^verbatim>\<open>try\<close>/\<^verbatim>\<open>catch\<close> logs. A handler runs to its
  end before the next event is taken.
\<close>

record rtc =
  rtc_createOffer :: "string option"
  rtc_createAnswer :: "string option"
  rtc_setLocalDescription :: bool
  rtc_setRemoteDescription :: bool
  rtc_addIceCandidate :: bool

definition createPeerConnection :: "string \<Rightarrow> client \<Rightarrow> peerConnection \<times> client" where
  "createPeerConnection remoteUserId st =
     (case map_of (peerConnectionsRef st) remoteUserId of
        Some existing \<Rightarrow> (existing, st)
      | None \<Rightarrow>
          (let peerConnection =
                 \<lparr>pc_id = constructed st,
                  pc_tracks = (case localStream st of None \<Rightarrow> [] | Some tracks \<Rightarrow> tracks),
                  localDescription = None, remoteDescription = None, iceCandidates = []\<rparr>
           in (peerConnection,
               st\<lparr>peerConnectionsRef :=
                     AList.update remoteUserId peerConnection (peerConnectionsRef st),
                   constructed := constructed st + 1\<rparr>)))"

text \<open>
  The three senders emit only if \<^verbatim>\<open>socketRef.current && isConnected\<close>; the socket exists
  from the first effect of \<^verbatim>\<open>useSocket\<close> on, so the test is \<open>isConnected\<close>.
\<close>

definition sendOffer :: "string \<Rightarrow> string \<Rightarrow> client \<Rightarrow> client" where
  "sendOffer target offer st =
     (if isConnected st
      then st\<lparr>sent := sent st @
             [SentOffer \<lparr>targetUserId = Some target, body = offer, fromUserId = Some (userId st)\<rparr>]\<rparr>
      else st)"

definition sendAnswer :: "string \<Rightarrow> string \<Rightarrow> client \<Rightarrow> client" where
  "sendAnswer target answer st =
     (if isConnected st
      then st\<lparr>sent := sent st @
             [SentAnswer \<lparr>targetUserId = Some target, body = answer, fromUserId = Some (userId st)\<rparr>]\<rparr>
      else st)"

definition sendIceCandidate :: "string \<Rightarrow> string \<Rightarrow> client \<Rightarrow> client" where
  "sendIceCandidate target candidate st =
     (if isConnected st
      then st\<lparr>sent := sent st @
             [SentIceCandidate
                \<lparr>targetUserId = Some target, body = candidate, fromUserId = Some (userId st)\<rparr>]\<rparr>
      else st)"

text \<open>A method call that changes the connection object changes the entry of the map.\<close>

definition storePeerConnection :: "string \<Rightarrow> peerConnection \<Rightarrow> client \<Rightarrow> client" where
  "storePeerConnection remoteUserId pc st =
     st\<lparr>peerConnectionsRef := AList.update remoteUserId pc (peerConnectionsRef st)\<rparr>"

definition createOffer :: "rtc \<Rightarrow> string \<Rightarrow> client \<Rightarrow> client" where
  "createOffer env remoteUserId st =
     (let (pc, st1) = createPeerConnection remoteUserId st in
      case rtc_createOffer env of
        None \<Rightarrow> st1
      | Some offer \<Rightarrow>
          (if \<not> rtc_setLocalDescription env then st1
           else sendOffer remoteUserId offer
                  (storePeerConnection remoteUserId (pc\<lparr>localDescription := Some offer\<rparr>) st1)))"

definition handleOffer :: "rtc \<Rightarrow> string \<Rightarrow> string \<Rightarrow> client \<Rightarrow> client" where
  "handleOffer env from offer st =
     (let (pc, st1) = createPeerConnection from st in
      if \<not> rtc_setRemoteDescription env then st1
      else
        (let pc1 = pc\<lparr>remoteDescription := Some offer\<rparr>;
             st2 = storePeerConnection from pc1 st1
         in case rtc_createAnswer env of
              None \<Rightarrow> st2
            | Some answer \<Rightarrow>
                (if \<not> rtc_setLocalDescription env then st2
                 else sendAnswer from answer
                        (storePeerConnection from (pc1\<lparr>localDescription := Some answer\<rparr>) st2))))"

definition handleAnswer :: "rtc \<Rightarrow> string \<Rightarrow> string \<Rightarrow> client \<Rightarrow> client" where
  "handleAnswer env from answer st =
     (case map_of (peerConnectionsRef st) from of
        None \<Rightarrow> st
      | Some pc \<Rightarrow>
          (if \<not> rtc_setRemoteDescription env then st
           else storePeerConnection from (pc\<lparr>remoteDescription := Some answer\<rparr>) st))"

definition handleIceCandidate :: "rtc \<Rightarrow> string \<Rightarrow> string \<Rightarrow> client \<Rightarrow> client" where
  "handleIceCandidate env from candidate st =
     (case map_of (peerConnectionsRef st) from of
        None \<Rightarrow> st
      | Some pc \<Rightarrow>
          (if \<not> rtc_addIceCandidate env then st
           else storePeerConnection from (pc\<lparr>iceCandidates := iceCandidates pc @ [candidate]\<rparr>) st))"

definition handleUserJoined :: "rtc \<Rightarrow> string \<Rightarrow> client \<Rightarrow> client" where
  "handleUserJoined env u st = createOffer env u st"

definition handleUserLeft :: "string \<Rightarrow> client \<Rightarrow> client" where
  "handleUserLeft u st =
     st\<lparr>peerConnectionsRef := AList.delete u (peerConnectionsRef st),
        remoteStreams := AList.delete u (remoteStreams st),
        connectionStates := AList.delete u (connectionStates st)\<rparr>"

text \<open>
  The events a client receives, as its handlers destructure them. The clients of this
  repository send their own \<open>userId\<close> as \<^verbatim>\<open>fromUserId\<close>, a string. The last three are
  the callbacks \<^verbatim>\<open>onicecandidate\<close> (whose candidate is \<^verbatim>\<open>null\<close> at the end of the
  candidates), \<^verbatim>\<open>ontrack\<close> and \<^verbatim>\<open>onconnectionstatechange\<close> that
  \<^verbatim>\<open>createPeerConnection\<close> sets on the connection for the given user.
\<close>

datatype incoming =
  InRoomJoined "participantInfo list"
| InUserJoined string string
| InUserLeft string
| InRoomError string
| InRoomFull
| InOffer string string
| InAnswer string string
| InIceCandidate string string
| PcIceCandidate string "string option"
| PcTrack string string
| PcConnectionState string string

text \<open>
  The subscriptions of the two hooks: \<^verbatim>\<open>useSocket\<close> listens to \<^verbatim>\<open>room-joined\<close>,
  \<^verbatim>\<open>user-joined\<close>, \<^verbatim>\<open>user-left\<close>, \<^verbatim>\<open>room-error\<close> and \<^verbatim>\<open>room-full\<close>;
  \<^verbatim>\<open>useWebRTC\<close> to \<^verbatim>\<open>offer\<close>, \<^verbatim>\<open>answer\<close>, \<^verbatim>\<open>ice-candidate\<close>, \<^verbatim>\<open>user-joined\<close>
  and \<^verbatim>\<open>user-left\<close>. Where both listen, they change different fields of the state.
\<close>

definition dispatch :: "rtc \<Rightarrow> incoming \<Rightarrow> client \<Rightarrow> client" where
  "dispatch env ev st =
     (case ev of
        InRoomJoined existingParticipants \<Rightarrow>
          st\<lparr>knownParticipants := onRoomJoined (userId st) existingParticipants\<rparr>
      | InUserJoined u n \<Rightarrow>
          handleUserJoined env u (st\<lparr>knownParticipants := onUserJoined u n (knownParticipants st)\<rparr>)
      | InUserLeft u \<Rightarrow>
          handleUserLeft u (st\<lparr>knownParticipants := onUserLeft u (knownParticipants st)\<rparr>)
      | InRoomError msg \<Rightarrow> st\<lparr>error := Some msg\<rparr>
      | InRoomFull \<Rightarrow> st\<lparr>error := Some ''Room is full (max 4 participants)''\<rparr>
      | InOffer from offer \<Rightarrow> handleOffer env from offer st
      | InAnswer from answer \<Rightarrow> handleAnswer env from answer st
      | InIceCandidate from candidate \<Rightarrow> handleIceCandidate env from candidate st
      | PcIceCandidate remoteUserId candidate \<Rightarrow>
          (case candidate of
             None \<Rightarrow> st
           | Some c \<Rightarrow> sendIceCandidate remoteUserId c st)
      | PcTrack remoteUserId remoteStream \<Rightarrow>
          st\<lparr>remoteStreams := AList.update remoteUserId remoteStream (remoteStreams st)\<rparr>
      | PcConnectionState remoteUserId state \<Rightarrow>
          st\<lparr>connectionStates := AList.update remoteUserId state (connectionStates st)\<rparr>)"

section \<open>Histories of the room manager\<close>

text \<open>
  A call of the room manager: a join (with the time of the call), a leave, or the removal
  that follows a dropped connection.
\<close>

datatype op =
  OpJoin nat string participant
| OpLeave string string
| OpDisconnect string

fun step :: "rooms \<Rightarrow> op \<Rightarrow> rooms" where
  "step rs (OpJoin now rid p) = snd (addParticipant now rid p rs)"
| "step rs (OpLeave rid u) = removeParticipant rid u rs"
| "step rs (OpDisconnect s) = snd (removeParticipantBySocketId s rs)"

definition run :: "rooms \<Rightarrow> op list \<Rightarrow> rooms" where
  "run rs ops = foldl step rs ops"

fun isJoinOf :: "string \<Rightarrow> op \<Rightarrow> bool" where
  "isJoinOf rid (OpJoin now rid' p) = (rid' = rid)"
| "isJoinOf rid _ = False"

fun socketGiven :: "op \<Rightarrow> bool" where
  "socketGiven (OpJoin now rid p) = (socketId p \<noteq> [])"
| "socketGiven _ = True"

text \<open>
  The socket id supplied by the most recent successful join of \<open>t\<close> in \<open>rid\<close>, carried
  along a history: a successful join of \<open>t\<close> in \<open>rid\<close> sets it, a removal of \<open>t\<close> from
  \<open>rid\<close> forgets it, and every other call, a refused join among them, leaves it.
\<close>

fun lastJoinStep :: "string \<Rightarrow> string \<Rightarrow> rooms \<times> string option \<Rightarrow> op \<Rightarrow> rooms \<times> string option" where
  "lastJoinStep rid t (rs, l) (OpJoin now rid' p) =
     (case addParticipant now rid' p rs of
        (Inl err, rs') \<Rightarrow> (rs', l)
      | (Inr ps, rs') \<Rightarrow> (rs', if rid' = rid \<and> odId p = t then Some (socketId p) else l))"
| "lastJoinStep rid t (rs, l) (OpLeave rid' u) =
     (removeParticipant rid' u rs, if rid' = rid \<and> u = t then None else l)"
| "lastJoinStep rid t (rs, l) (OpDisconnect s) =
     (case removeParticipantBySocketId s rs of
        (Some (rid', u), rs') \<Rightarrow> (rs', if rid' = rid \<and> u = t then None else l)
      | (None, rs') \<Rightarrow> (rs', l))"

definition lastJoin :: "string \<Rightarrow> string \<Rightarrow> op list \<Rightarrow> string option" where
  "lastJoin rid t ops = snd (foldl (lastJoinStep rid t) ([], None) ops)"

text \<open>The calls on one room: joins and leaves.\<close>

datatype roomOp =
  Join nat participant
| Leave string

fun roomStep :: "string \<Rightarrow> rooms \<Rightarrow> roomOp \<Rightarrow> rooms" where
  "roomStep rid rs (Join now p) = snd (addParticipant now rid p rs)"
| "roomStep rid rs (Leave u) = removeParticipant rid u rs"

definition runRoom :: "string \<Rightarrow> roomOp list \<Rightarrow> rooms" where
  "runRoom rid ops = foldl (roomStep rid) [] ops"

text \<open>
  The members of a room as the specification counts them, independently of the room
  manager: a join of a member changes nothing, a join of a new identity adds it unless
  four are joined already, a leave removes the identity.
\<close>

fun specStep :: "string list \<Rightarrow> roomOp \<Rightarrow> string list" where
  "specStep ms (Join now p) =
     (if odId p \<in> set ms then ms else if length ms < 4 then ms @ [odId p] else ms)"
| "specStep ms (Leave u) = removeAll u ms"

definition specMembers :: "roomOp list \<Rightarrow> string list" where
  "specMembers ops = foldl specStep [] ops"

text \<open>Forgetting the socket ids a state stores, to compare states up to them.\<close>

definition eraseParticipant :: "participant \<Rightarrow> participant" where
  "eraseParticipant p = p\<lparr>socketId := []\<rparr>"

definition eraseRoom :: "room \<Rightarrow> room" where
  "eraseRoom r = r\<lparr>participants := map (\<lambda>(u, p). (u, eraseParticipant p)) (participants r)\<rparr>"

definition eraseSocketIds :: "rooms \<Rightarrow> rooms" where
  "eraseSocketIds rs = map (\<lambda>(rid, r). (rid, eraseRoom r)) rs"

text \<open>No room of the map is empty: what the room manager keeps true of its state.\<close>

definition noEmptyRoom :: "rooms \<Rightarrow> bool" where
  "noEmptyRoom rs = list_all (\<lambda>(rid, r). participants r \<noteq> []) rs"

text \<open>\<^verbatim>\<open>room.participants.has(odId)\<close> for the room stored under \<open>rid\<close>, if there is one.\<close>

definition hasParticipant :: "string \<Rightarrow> string \<Rightarrow> rooms \<Rightarrow> bool" where
  "hasParticipant rid u rs =
     (case map_of rs rid of None \<Rightarrow> False | Some r \<Rightarrow> map_of (participants r) u \<noteq> None)"

text \<open>
  A run of a client: the events it receives, each with the outcomes of the platform calls
  its handler awaits.
\<close>

definition runClient :: "client \<Rightarrow> (rtc \<times> incoming) list \<Rightarrow> client" where
  "runClient st evs = foldl (\<lambda>st (env, ev). dispatch env ev st) st evs"

text \<open>
  What relates the rooms to the members the specification counts when every call is on the
  room \<open>rid\<close>: there is no room and no member, or the one room \<open>rid\<close> whose keys are
  the members.
\<close>

definition roomInv :: "string \<Rightarrow> rooms \<Rightarrow> string list \<Rightarrow> bool" where
  "roomInv rid rs ms \<longleftrightarrow>
     (ms = [] \<and> rs = []) \<or>
     (\<exists>r. rs = [(rid, r)] \<and> map fst (participants r) = ms \<and> ms \<noteq> [] \<and>
          length ms \<le> 4 \<and> distinct ms)"

section \<open>Sample values\<close>

text \<open>
  Four participants, a state with one room that holds given participants, a fresh socket,
  a connected client with no peer connection, and platform calls that all succeed. The
  closed instances below are stated on them.
\<close>

definition exAnn :: participant where
  "exAnn = \<lparr>odId = ''u1'', name = ''Ann'', socketId = ''s1''\<rparr>"
definition exBob :: participant where
  "exBob = \<lparr>odId = ''u2'', name = ''Bob'', socketId = ''s2''\<rparr>"
definition exCat :: participant where
  "exCat = \<lparr>odId = ''u3'', name = ''Cat'', socketId = ''s3''\<rparr>"
definition exDan :: participant where
  "exDan = \<lparr>odId = ''u4'', name = ''Dan'', socketId = ''s4''\<rparr>"

definition exRooms :: "(string \<times> participant) list \<Rightarrow> rooms" where
  "exRooms ps = [(''abcd1234'', \<lparr>room_id = ''abcd1234'', participants = ps, createdAt = 0\<rparr>)]"

definition exSocket :: "string \<Rightarrow> socket" where
  "exSocket s = \<lparr>socket_id = s, data_roomId = None, data_odId = None, socketRooms = []\<rparr>"

definition exClient :: client where
  "exClient =
     \<lparr>userId = ''u1'', isConnected = True, error = None, knownParticipants = [],
      localStream = Some [''audio'', ''video''], peerConnectionsRef = [], remoteStreams = [],
      connectionStates = [], constructed = 0, sent = []\<rparr>"

definition exRtc :: rtc where
  "exRtc =
     \<lparr>rtc_createOffer = Some ''offer'', rtc_createAnswer = Some ''answer'',
      rtc_setLocalDescription = True, rtc_setRemoteDescription = True,
      rtc_addIceCandidate = True\<rparr>"

section \<open>Properties of the room manager\<close>

subsection \<open>The two mutators, unfolded\<close>

lemma addParticipant_unfold:
  "addParticipant now rid p rs =
     (let r = (case map_of rs rid of
                 None \<Rightarrow> \<lparr>room_id = rid, participants = [], createdAt = now\<rparr>
               | Some r \<Rightarrow> r);
          r' = r\<lparr>participants := AList.update (odId p) p (participants r)\<rparr>
      in if length (participants r) \<ge> 4 then (Inl ''Room is full'', rs)
         else (Inr (map (\<lambda>p. \<lparr>info_odId = odId p, info_name = name p\<rparr>) (map snd (participants r'))),
               AList.update rid r' rs))"
  by (simp add: addParticipant_def getOrCreateRoom_def MAX_PARTICIPANTS_def Let_def
      getParticipantsList_def AList.update_conv' split: option.splits)

lemma map_of_addParticipant_other:
  "rid' \<noteq> rid \<Longrightarrow> map_of (snd (addParticipant now rid p rs)) rid' = map_of rs rid'"
  by (simp add: addParticipant_unfold Let_def AList.update_conv')

lemma removeParticipant_unfold:
  "map_of (removeParticipant rid u rs) rid' =
     (if rid' = rid
      then (case map_of rs rid of
              None \<Rightarrow> None
            | Some r \<Rightarrow> (if AList.delete u (participants r) = [] then None
                         else Some (r\<lparr>participants := AList.delete u (participants r)\<rparr>)))
      else map_of rs rid')"
  by (simp add: removeParticipant_def Let_def AList.update_conv' AList.delete_conv'
      split: option.splits)

lemma delete_Nil_map_of: "AList.delete u ps = [] \<Longrightarrow> t \<noteq> u \<Longrightarrow> map_of ps t = None"
  using map_of_delete[of t u ps] by simp

lemma list_all_update:
  "P (k, v) \<Longrightarrow> list_all P xs \<Longrightarrow> list_all P (AList.update k v xs)"
  by (induction xs) auto

lemma list_all_delete: "list_all P xs \<Longrightarrow> list_all P (AList.delete k xs)"
  by (induction xs) auto

subsection \<open>No reachable state has an empty room\<close>

lemma noEmptyRoom_addParticipant:
  "noEmptyRoom rs \<Longrightarrow> noEmptyRoom (snd (addParticipant now rid p rs))"
  by (simp add: noEmptyRoom_def addParticipant_unfold Let_def list_all_update)

lemma noEmptyRoom_removeParticipant:
  assumes "noEmptyRoom rs"
  shows "noEmptyRoom (removeParticipant rid u rs)"
proof (cases "map_of rs rid")
  case None
  then show ?thesis using assms by (simp add: removeParticipant_def)
next
  case (Some r)
  show ?thesis
  proof (cases "AList.delete u (participants r) = []")
    case True
    then show ?thesis
      using assms Some
      by (simp add: removeParticipant_def Let_def noEmptyRoom_def AList.delete_update_same
          list_all_delete)
  next
    case False
    then show ?thesis
      using assms Some
      by (simp add: removeParticipant_def Let_def noEmptyRoom_def list_all_update)
  qed
qed

lemma noEmptyRoom_step: "noEmptyRoom rs \<Longrightarrow> noEmptyRoom (step rs op)"
  by (cases op)
    (auto simp add: noEmptyRoom_addParticipant noEmptyRoom_removeParticipant
      removeParticipantBySocketId_def split: option.splits)

lemma noEmptyRoom_run: "noEmptyRoom rs \<Longrightarrow> noEmptyRoom (run rs ops)"
  unfolding run_def
  by (induction ops arbitrary: rs) (simp_all add: noEmptyRoom_step)

lemma noEmptyRoom_reachable: "noEmptyRoom (run [] ops)"
  by (rule noEmptyRoom_run) (simp add: noEmptyRoom_def)

text \<open>So the periodic sweep finds nothing to delete in a reachable state.\<close>

lemma cleanupEmptyRooms_noEmptyRoom: "noEmptyRoom rs \<Longrightarrow> cleanupEmptyRooms now rs = rs"
  by (induction rs) (auto simp add: noEmptyRoom_def cleanupEmptyRooms_def)

lemma cleanupEmptyRooms_reachable: "cleanupEmptyRooms now (run [] ops) = run [] ops"
  by (simp add: cleanupEmptyRooms_noEmptyRoom noEmptyRoom_reachable)

subsection \<open>Routing after a history\<close>

lemma route_addParticipant:
  "getParticipantSocketId rid t (snd (addParticipant now rid' p rs)) =
     (if rid' = rid \<and> odId p = t \<and> isl (fst (addParticipant now rid' p rs)) = False
      then (if socketId p = [] then None else Some (socketId p))
      else getParticipantSocketId rid t rs)"
  by (simp add: getParticipantSocketId_def addParticipant_unfold Let_def AList.update_conv'
      split: option.splits)

lemma route_after_successful_join:
  "isl (fst (addParticipant now rid p rs)) = False \<Longrightarrow> socketId p \<noteq> [] \<Longrightarrow>
   getParticipantSocketId rid (odId p) (snd (addParticipant now rid p rs)) = Some (socketId p)"
  by (simp add: route_addParticipant)

lemma route_removeParticipant:
  "getParticipantSocketId rid t (removeParticipant rid' u rs) =
     (if rid' = rid \<and> u = t then None else getParticipantSocketId rid t rs)"
  by (auto simp add: getParticipantSocketId_def removeParticipant_unfold AList.delete_conv'
      delete_Nil_map_of split: option.splits)

lemma route_lastJoinStep:
  assumes "socketGiven op" and "getParticipantSocketId rid t rs = l"
  shows "getParticipantSocketId rid t (fst (lastJoinStep rid t (rs, l) op)) =
         snd (lastJoinStep rid t (rs, l) op)"
proof (cases op)
  case (OpJoin now rid' p)
  then show ?thesis
    using assms route_addParticipant[of rid t now rid' p rs]
    by (auto split: prod.splits sum.splits)
next
  case (OpLeave rid' u)
  then show ?thesis
    using assms by (simp add: route_removeParticipant)
next
  case (OpDisconnect s)
  then show ?thesis
    using assms
    by (auto simp add: removeParticipantBySocketId_def route_removeParticipant
        split: option.splits prod.splits)
qed

lemma fst_lastJoinStep: "fst (lastJoinStep rid t (rs, l) op) = step rs op"
  by (cases op)
    (auto simp: removeParticipantBySocketId_def split: prod.splits sum.splits option.splits)

lemma route_lastJoin_fold:
  "list_all socketGiven ops \<Longrightarrow> getParticipantSocketId rid t rs = l \<Longrightarrow>
   fst (foldl (lastJoinStep rid t) (rs, l) ops) = foldl step rs ops \<and>
   getParticipantSocketId rid t (foldl step rs ops) = snd (foldl (lastJoinStep rid t) (rs, l) ops)"
proof (induction ops arbitrary: rs l)
  case Nil
  then show ?case by simp
next
  case (Cons op ops)
  obtain rs' l' where st: "lastJoinStep rid t (rs, l) op = (rs', l')"
    by (cases "lastJoinStep rid t (rs, l) op")
  have "getParticipantSocketId rid t rs' = l'"
    using route_lastJoinStep[of op rid t rs l] Cons.prems st by simp
  moreover have "rs' = step rs op"
    using fst_lastJoinStep[of rid t rs l op] st by simp
  ultimately show ?case
    using Cons.IH[of rs' l'] Cons.prems st by simp
qed

lemma step_keeps_room_absent:
  "\<not> isJoinOf rid op \<Longrightarrow> map_of rs rid = None \<Longrightarrow> map_of (step rs op) rid = None"
proof (cases op)
  case (OpJoin now rid' p)
  assume "\<not> isJoinOf rid op" "map_of rs rid = None"
  with OpJoin show ?thesis by (simp add: map_of_addParticipant_other)
next
  case (OpLeave rid' u)
  assume "map_of rs rid = None"
  with OpLeave show ?thesis by (auto simp add: removeParticipant_unfold)
next
  case (OpDisconnect s)
  assume "map_of rs rid = None"
  with OpDisconnect show ?thesis
    by (auto simp add: removeParticipantBySocketId_def removeParticipant_unfold
        split: option.splits)
qed

lemma run_keeps_room_absent:
  "list_all (\<lambda>op. \<not> isJoinOf rid op) ops \<Longrightarrow> map_of rs rid = None \<Longrightarrow>
   map_of (run rs ops) rid = None"
  unfolding run_def
  by (induction ops arbitrary: rs) (simp_all add: step_keeps_room_absent)

lemma removeParticipant_absent:
  assumes "noEmptyRoom rs" and "\<not> hasParticipant rid u rs"
  shows "removeParticipant rid u rs = rs"
proof (cases "map_of rs rid")
  case None
  then show ?thesis by (simp add: removeParticipant_def)
next
  case (Some r)
  then have "(rid, r) \<in> set rs" by (rule map_of_SomeD)
  then have ne: "participants r \<noteq> []"
    using assms(1) by (auto simp add: noEmptyRoom_def list_all_iff)
  have "map_of (participants r) u = None"
    using assms(2) Some by (simp add: hasParticipant_def)
  then have "u \<notin> fst ` set (participants r)"
    by (simp add: map_of_eq_None_iff)
  then have del: "AList.delete u (participants r) = participants r"
    by simp
  show ?thesis
    using Some ne del by (simp add: removeParticipant_def Let_def AList.update_triv)
qed

lemma removeParticipant_last:
  assumes "map_of rs rid = Some r" and "map fst (participants r) = [u]"
  shows "map_of (removeParticipant rid u rs) rid = None"
proof -
  obtain p where "participants r = [(u, p)]"
    using assms(2) by (cases "participants r") auto
  then show ?thesis
    using assms(1) by (simp add: removeParticipant_unfold)
qed

subsection \<open>States that differ in socket ids only\<close>

lemma update_map_values:
  "AList.update k (f v) (map (\<lambda>(k, v). (k, f v)) xs) =
   map (\<lambda>(k, v). (k, f v)) (AList.update k v xs)"
  by (induction xs) auto

lemma map_of_eraseSocketIds:
  "map_of (eraseSocketIds rs) rid = map_option eraseRoom (map_of rs rid)"
  by (simp add: eraseSocketIds_def map_of_map)

lemma getParticipantsList_erase:
  "getParticipantsList rid (eraseSocketIds rs) = getParticipantsList rid rs"
  by (simp add: getParticipantsList_def map_of_eraseSocketIds eraseRoom_def eraseParticipant_def
      split: option.splits prod.splits)

lemma getOrCreateRoom_erase:
  "getOrCreateRoom now rid (eraseSocketIds rs) =
     (eraseRoom (fst (getOrCreateRoom now rid rs)), eraseSocketIds (snd (getOrCreateRoom now rid rs)))"
  apply (simp add: getOrCreateRoom_def map_of_eraseSocketIds split: option.splits)
  apply (simp add: eraseSocketIds_def eraseRoom_def Let_def)
  using update_map_values[of rid eraseRoom "\<lparr>room_id = rid, participants = [], createdAt = now\<rparr>" rs]
  apply (simp add: eraseRoom_def)
  done

lemma addParticipant_erase:
  "addParticipant now rid (eraseParticipant p) (eraseSocketIds rs) =
     (fst (addParticipant now rid p rs), eraseSocketIds (snd (addParticipant now rid p rs)))"
proof -
  obtain r rs1 where g: "getOrCreateRoom now rid rs = (r, rs1)"
    by (cases "getOrCreateRoom now rid rs")
  have g': "getOrCreateRoom now rid (eraseSocketIds rs) = (eraseRoom r, eraseSocketIds rs1)"
    by (simp add: getOrCreateRoom_erase g)
  have len: "length (participants (eraseRoom r)) = length (participants r)"
    by (simp add: eraseRoom_def)
  have upd: "(eraseRoom r)\<lparr>participants :=
                AList.update (odId p) (eraseParticipant p) (participants (eraseRoom r))\<rparr> =
             eraseRoom (r\<lparr>participants := AList.update (odId p) p (participants r)\<rparr>)"
    by (simp add: eraseRoom_def update_map_values)
  have upd2: "AList.update rid (eraseRoom r') (eraseSocketIds rs1) =
              eraseSocketIds (AList.update rid r' rs1)" for r'
    by (simp add: eraseSocketIds_def update_map_values)
  have oid: "odId (eraseParticipant p) = odId p"
    by (simp add: eraseParticipant_def)
  show ?thesis
    by (simp add: addParticipant_def g g' len upd upd2 oid Let_def getParticipantsList_erase)
qed

subsection \<open>Joining\<close>

lemma joinRoomHandler_invalid:
  "\<not> truthy (jr_roomId m) \<or> \<not> truthy (jr_userId m) \<Longrightarrow>
   joinRoomHandler now sock m rs =
     (sock, rs, [(SocketEmit (socket_id sock), RoomError ''Invalid room ID or user ID'')])"
  by (simp add: joinRoomHandler_def)

lemma update_absent: "map_of xs k = None \<Longrightarrow> AList.update k v xs = xs @ [(k, v)]"
  by (induction xs) (auto split: if_splits)

lemma update_mem: "(k, v) \<in> set (AList.update k v xs)"
  by (induction xs) auto

lemma addParticipant_lists_joiner:
  assumes "fst (addParticipant now rid p rs) = Inr ps"
  shows "\<lparr>info_odId = odId p, info_name = name p\<rparr> \<in> set ps"
proof -
  define r where "r = (case map_of rs rid of
                 None \<Rightarrow> \<lparr>room_id = rid, participants = [], createdAt = now\<rparr>
               | Some r \<Rightarrow> r)"
  have "ps = map (\<lambda>p. \<lparr>info_odId = odId p, info_name = name p\<rparr>)
               (map snd (AList.update (odId p) p (participants r)))"
    using assms by (simp add: addParticipant_unfold Let_def r_def split: if_splits)
  moreover have "p \<in> set (map snd (AList.update (odId p) p (participants r)))"
    using update_mem[of "odId p" p "participants r"] by force
  ultimately show ?thesis by auto
qed

lemma reconnect_below_capacity:
  assumes "map_of rs rid = Some r" and "map_of (participants r) (odId p) \<noteq> None"
    and "length (participants r) < 4" and "socketId p \<noteq> []"
  shows "isl (fst (addParticipant now rid p rs)) = False \<and>
         length (getParticipantsList rid (snd (addParticipant now rid p rs))) =
           length (getParticipantsList rid rs) \<and>
         getParticipantSocketId rid (odId p) (snd (addParticipant now rid p rs)) = Some (socketId p)"
proof -
  have "odId p \<in> fst ` set (participants r)"
    using assms(2) by (simp add: map_of_eq_None_iff)
  then have "length (AList.update (odId p) p (participants r)) = length (participants r)"
    by (metis AList.update_keys length_map list.set_map)
  then show ?thesis
    using assms
    by (simp add: addParticipant_unfold Let_def getParticipantsList_def getParticipantSocketId_def
        AList.update_conv')
qed

subsection \<open>The members of one room along a history\<close>

lemma roomInv_join:
  assumes "roomInv rid rs ms"
  shows "roomInv rid (roomStep rid rs (Join now p)) (specStep ms (Join now p))"
proof (cases "rs = []")
  case True
  then have "ms = []" using assms by (auto simp add: roomInv_def)
  with True show ?thesis
    by (simp add: roomInv_def addParticipant_unfold Let_def)
next
  case False
  then obtain r where r: "rs = [(rid, r)]" "map fst (participants r) = ms" "ms \<noteq> []"
    "length ms \<le> 4" "distinct ms"
    using assms by (auto simp add: roomInv_def)
  have len: "length (participants r) = length ms"
    using r(2) by (metis length_map)
  show ?thesis
  proof (cases "length ms < 4")
    case True
    have keys: "map fst (AList.update (odId p) p (participants r)) =
                (if odId p \<in> set ms then ms else ms @ [odId p])"
      using r(2) by (simp add: AList.update_keys)
    show ?thesis
      using True r len keys
      by (auto simp add: roomInv_def addParticipant_unfold Let_def)
  next
    case False
    then show ?thesis
      using r len assms by (auto simp add: addParticipant_unfold Let_def)
  qed
qed

lemma roomInv_leave:
  assumes "roomInv rid rs ms"
  shows "roomInv rid (roomStep rid rs (Leave u)) (specStep ms (Leave u))"
proof (cases "rs = []")
  case True
  then have "ms = []" using assms by (auto simp add: roomInv_def)
  with True show ?thesis
    by (simp add: roomInv_def removeParticipant_def)
next
  case False
  then obtain r where r: "rs = [(rid, r)]" "map fst (participants r) = ms" "ms \<noteq> []"
    "length ms \<le> 4" "distinct ms"
    using assms by (auto simp add: roomInv_def)
  have keys: "map fst (AList.delete u (participants r)) = removeAll u ms"
    using r(2) by (simp add: AList.delete_keys)
  have le: "length (removeAll u ms) \<le> 4"
    using r(4) length_removeAll_less_eq[of u ms] by (meson le_trans)
  show ?thesis
  proof (cases "AList.delete u (participants r) = []")
    case True
    then have "removeAll u ms = []" using keys by simp
    with True r show ?thesis
      by (simp add: roomInv_def removeParticipant_def Let_def)
  next
    case False
    then have "removeAll u ms \<noteq> []" using keys by (metis map_is_Nil_conv)
    with False r keys le show ?thesis
      by (simp add: roomInv_def removeParticipant_def Let_def distinct_removeAll)
  qed
qed

lemma roomInv_fold:
  "roomInv rid rs ms \<Longrightarrow> roomInv rid (foldl (roomStep rid) rs ops) (foldl specStep ms ops)"
proof (induction ops arbitrary: rs ms)
  case Nil
  then show ?case by simp
next
  case (Cons op ops)
  have "roomInv rid (roomStep rid rs op) (specStep ms op)"
    using Cons.prems by (cases op) (simp_all only: roomInv_join roomInv_leave)
  then show ?case using Cons.IH by simp
qed

lemma roomInv_run: "roomInv rid (runRoom rid ops) (specMembers ops)"
  unfolding runRoom_def specMembers_def
  by (rule roomInv_fold) (simp add: roomInv_def)

section \<open>Properties of the client\<close>

lemma createPeerConnection_existing:
  "map_of (peerConnectionsRef st) u = Some pc \<Longrightarrow> createPeerConnection u st = (pc, st)"
  by (simp add: createPeerConnection_def)

lemma createPeerConnection_twice:
  "createPeerConnection u (snd (createPeerConnection u st)) = createPeerConnection u st"
  by (cases "map_of (peerConnectionsRef st) u")
     (simp_all add: createPeerConnection_def Let_def AList.update_conv')

lemma createPeerConnection_stored:
  "map_of (peerConnectionsRef (snd (createPeerConnection u st))) u = Some (fst (createPeerConnection u st))"
  by (cases "map_of (peerConnectionsRef st) u")
     (simp_all add: createPeerConnection_def Let_def AList.update_conv')

lemma distinct_createPeerConnection:
  "distinct (map fst (peerConnectionsRef st)) \<Longrightarrow>
   distinct (map fst (peerConnectionsRef (snd (createPeerConnection u st))))"
  by (cases "map_of (peerConnectionsRef st) u")
     (simp_all add: createPeerConnection_def Let_def AList.distinct_update)

lemma pcs_send [simp]:
  "peerConnectionsRef (sendOffer u x st) = peerConnectionsRef st"
  "peerConnectionsRef (sendAnswer u x st) = peerConnectionsRef st"
  "peerConnectionsRef (sendIceCandidate u x st) = peerConnectionsRef st"
  by (simp_all add: sendOffer_def sendAnswer_def sendIceCandidate_def)

lemma distinct_store:
  "distinct (map fst (peerConnectionsRef st)) \<Longrightarrow>
   distinct (map fst (peerConnectionsRef (storePeerConnection u pc st)))"
  by (simp add: storePeerConnection_def AList.distinct_update)

lemma distinct_dispatch:
  assumes "distinct (map fst (peerConnectionsRef st))"
  shows "distinct (map fst (peerConnectionsRef (dispatch env ev st)))"
proof (cases ev)
  case (InUserJoined u n)
  let ?st = "st\<lparr>knownParticipants := onUserJoined u n (knownParticipants st)\<rparr>"
  have "distinct (map fst (peerConnectionsRef (snd (createPeerConnection u ?st))))"
    using assms by (intro distinct_createPeerConnection) simp
  then show ?thesis
    using InUserJoined
    by (auto simp add: dispatch_def handleUserJoined_def createOffer_def distinct_store
        split: prod.splits option.splits)
next
  case (InOffer u x)
  have "distinct (map fst (peerConnectionsRef (snd (createPeerConnection u st))))"
    using assms by (rule distinct_createPeerConnection)
  then show ?thesis
    using InOffer
    by (auto simp add: dispatch_def handleOffer_def Let_def distinct_store
        split: prod.splits option.splits)
qed (use assms in \<open>auto simp add: dispatch_def handleUserLeft_def handleAnswer_def
      handleIceCandidate_def distinct_store AList.distinct_delete split: option.splits\<close>)

lemma distinct_runClient:
  "distinct (map fst (peerConnectionsRef st)) \<Longrightarrow>
   distinct (map fst (peerConnectionsRef (runClient st evs)))"
  unfolding runClient_def
  by (induction evs arbitrary: st) (auto simp add: distinct_dispatch)

lemma sent_createPeerConnection [simp]:
  "sent (snd (createPeerConnection u st)) = sent st"
  by (simp add: createPeerConnection_def Let_def split: option.splits)

lemma constructed_createPeerConnection:
  "constructed (snd (createPeerConnection u st)) =
     (if map_of (peerConnectionsRef st) u = None then constructed st + 1 else constructed st)"
  by (simp add: createPeerConnection_def Let_def split: option.splits)

lemma update_appended:
  "map_of xs k = None \<Longrightarrow> AList.update k v' (xs @ [(k, v)]) = xs @ [(k, v')]"
  by (induction xs) (auto split: if_splits)

lemma createOffer_sends_at_most_one:
  "sent (createOffer env b st) = sent st \<or>
   (\<exists>offer. sent (createOffer env b st) =
      sent st @ [SentOffer \<lparr>targetUserId = Some b, body = offer, fromUserId = Some (userId st)\<rparr>])"
proof -
  obtain pc st1 where c: "createPeerConnection b st = (pc, st1)"
    by (cases "createPeerConnection b st")
  have "userId st1 = userId st" "sent st1 = sent st"
    using c by (auto simp add: createPeerConnection_def Let_def split: option.splits)
  then show ?thesis
    by (simp add: createOffer_def c sendOffer_def storePeerConnection_def split: option.splits)
qed

section \<open>The claims\<close>

lemmas ex_defs = exAnn_def exBob_def exCat_def exDan_def exRooms_def exSocket_def exClient_def
  exRtc_def

text \<open>
  C1, as the code has it. The \<^verbatim>\<open>room-joined\<close> snapshot of a successful join goes to the
  joining socket and lists the joining identity itself, with its display name: the room
  manager returns all participants of the room. The joining client's handler of
  \<^verbatim>\<open>room-joined\<close> drops its own entry, so the list the client keeps excludes it.
\<close>

theorem snapshot_lists_joiner_client_filters:
  assumes "jr_userId m = Some uid"
    and "(d, RoomJoined ps) \<in> set (snd (snd (joinRoomHandler now sock m rs)))"
  shows "d = SocketEmit (socket_id sock) \<and>
         \<lparr>info_odId = uid, info_name = displayName (jr_name m) uid\<rparr> \<in> set ps \<and>
         uid \<notin> set (map info_odId (onRoomJoined uid ps))"
proof -
  have f: "uid \<notin> set (map info_odId (onRoomJoined uid ps))"
    by (auto simp add: onRoomJoined_def)
  from assms(2) have t: "truthy (jr_roomId m)" "truthy (jr_userId m)"
    by (auto simp add: joinRoomHandler_def split: if_splits)
  then obtain rid where rid: "jr_roomId m = Some rid"
    by (auto simp add: truthy_def split: option.splits)
  let ?p = "\<lparr>odId = uid, name = displayName (jr_name m) uid, socketId = socket_id sock\<rparr>"
  from assms t rid have "fst (addParticipant now rid ?p rs) = Inr ps \<and> d = SocketEmit (socket_id sock)"
    by (auto simp add: joinRoomHandler_def split: prod.splits sum.splits)
  then show ?thesis
    using addParticipant_lists_joiner[of now rid ?p rs ps] f by simp
qed

text \<open>
  An instance: \<open>u2\<close> joins the room of \<open>u1\<close> without giving a name.
\<close>

theorem snapshot_lists_joiner_client_filters_witness:
  "jr_userId \<lparr>jr_roomId = Some ''abcd1234'', jr_userId = Some ''u2'', jr_name = None\<rparr> = Some ''u2'' \<and>
   (SocketEmit ''s2'',
    RoomJoined [\<lparr>info_odId = ''u1'', info_name = ''Ann''\<rparr>, \<lparr>info_odId = ''u2'', info_name = ''User u2''\<rparr>])
     \<in> set (snd (snd (joinRoomHandler 5 (exSocket ''s2'')
          \<lparr>jr_roomId = Some ''abcd1234'', jr_userId = Some ''u2'', jr_name = None\<rparr>
          (exRooms [(''u1'', exAnn)])))) \<and>
   \<lparr>info_odId = ''u2'', info_name = ''User u2''\<rparr>
     \<in> set [\<lparr>info_odId = ''u1'', info_name = ''Ann''\<rparr>, \<lparr>info_odId = ''u2'', info_name = ''User u2''\<rparr>] \<and>
   onRoomJoined ''u2''
     [\<lparr>info_odId = ''u1'', info_name = ''Ann''\<rparr>, \<lparr>info_odId = ''u2'', info_name = ''User u2''\<rparr>] =
     [\<lparr>info_odId = ''u1'', info_name = ''Ann''\<rparr>]"
proof -
  let ?m = "\<lparr>jr_roomId = Some ''abcd1234'', jr_userId = Some ''u2'', jr_name = None\<rparr>"
  let ?ps = "[\<lparr>info_odId = ''u1'', info_name = ''Ann''\<rparr>, \<lparr>info_odId = ''u2'', info_name = ''User u2''\<rparr>]"
  have h1: "jr_userId ?m = Some ''u2''" by simp
  have h2: "(SocketEmit ''s2'', RoomJoined ?ps)
     \<in> set (snd (snd (joinRoomHandler 5 (exSocket ''s2'') ?m (exRooms [(''u1'', exAnn)]))))"
    by (simp add: ex_defs addParticipant_unfold joinRoomHandler_def truthy_def displayName_def Let_def)
  have f: "onRoomJoined ''u2'' ?ps = [\<lparr>info_odId = ''u1'', info_name = ''Ann''\<rparr>]"
    by (simp add: onRoomJoined_def)
  show ?thesis
    using snapshot_lists_joiner_client_filters[OF h1 h2] h1 h2 f by simp
qed

text \<open>
  C1 as stated fails: the first identity to join a room receives a snapshot that holds
  exactly its own entry.
\<close>

theorem snapshot_contains_joiner_counterexample:
  "snd (snd (joinRoomHandler 0 (exSocket ''s1'')
     \<lparr>jr_roomId = Some ''abcd1234'', jr_userId = Some ''u1'', jr_name = Some ''Ann''\<rparr> [])) =
     [(SocketEmit ''s1'', RoomJoined [\<lparr>info_odId = ''u1'', info_name = ''Ann''\<rparr>]),
      (SocketToRoom ''s1'' ''abcd1234'', UserJoined ''u1'' ''Ann'')] \<and>
   ''u1'' \<in> set (map info_odId [\<lparr>info_odId = ''u1'', info_name = ''Ann''\<rparr>])"
  by (simp add: ex_defs addParticipant_unfold joinRoomHandler_def truthy_def displayName_def Let_def)

text \<open>
  C2. A room holds \<open>u1\<close> to \<open>u4\<close>, and \<open>u1\<close> joins again from the new
  socket \<open>s9\<close>: the room manager answers \<^verbatim>\<open>Room is full\<close> and keeps the old socket id,
  and the handler emits \<^verbatim>\<open>room-full\<close>, since the size of the room is compared with the
  maximum before the identity is looked up. With three participants the same join is
  accepted as a reconnection.
\<close>

theorem reconnect_refused_in_full_room:
  "addParticipant 9 ''abcd1234'' (exAnn\<lparr>socketId := ''s9''\<rparr>)
     (exRooms [(''u1'', exAnn), (''u2'', exBob), (''u3'', exCat), (''u4'', exDan)]) =
     (Inl ''Room is full'', exRooms [(''u1'', exAnn), (''u2'', exBob), (''u3'', exCat), (''u4'', exDan)]) \<and>
   snd (snd (joinRoomHandler 9 (exSocket ''s9'')
     \<lparr>jr_roomId = Some ''abcd1234'', jr_userId = Some ''u1'', jr_name = Some ''Ann''\<rparr>
     (exRooms [(''u1'', exAnn), (''u2'', exBob), (''u3'', exCat), (''u4'', exDan)]))) =
     [(SocketEmit ''s9'', RoomFull)] \<and>
   fst (addParticipant 9 ''abcd1234'' (exAnn\<lparr>socketId := ''s9''\<rparr>)
     (exRooms [(''u1'', exAnn), (''u2'', exBob), (''u3'', exCat)])) =
     Inr [\<lparr>info_odId = ''u1'', info_name = ''Ann''\<rparr>, \<lparr>info_odId = ''u2'', info_name = ''Bob''\<rparr>,
          \<lparr>info_odId = ''u3'', info_name = ''Cat''\<rparr>]"
  by (simp add: ex_defs addParticipant_unfold joinRoomHandler_def truthy_def displayName_def Let_def)

text \<open>
  A consequence at the same input: the route to \<open>u1\<close> still resolves to the old socket
  \<open>s1\<close> after the refused join.
\<close>

theorem reconnect_refused_in_full_room_witness:
  "getParticipantSocketId ''abcd1234'' ''u1''
     (snd (addParticipant 9 ''abcd1234'' (exAnn\<lparr>socketId := ''s9''\<rparr>)
        (exRooms [(''u1'', exAnn), (''u2'', exBob), (''u3'', exCat), (''u4'', exDan)]))) =
     Some ''s1''"
proof -
  have "getParticipantSocketId ''abcd1234'' ''u1''
     (exRooms [(''u1'', exAnn), (''u2'', exBob), (''u3'', exCat), (''u4'', exDan)]) = Some ''s1''"
    by (simp add: getParticipantSocketId_def ex_defs)
  then show ?thesis
    using reconnect_refused_in_full_room by simp
qed

text \<open>
  C3, as the code has it. Every relayed \<^verbatim>\<open>offer\<close>, \<^verbatim>\<open>answer\<close> and \<^verbatim>\<open>ice-candidate\<close>
  carries the \<^verbatim>\<open>fromUserId\<close> of the client's message, unchanged, and the relay does not
  depend on the identity stored for the sending socket in \<^verbatim>\<open>socket.data.odId\<close>.
\<close>

theorem relay_forwards_client_fromUserId:
  "(\<forall>e \<in> set (offerHandler sock m rs). snd e = OfferEvent (fromUserId m) (body m)) \<and>
   (\<forall>e \<in> set (answerHandler sock m rs). snd e = AnswerEvent (fromUserId m) (body m)) \<and>
   (\<forall>e \<in> set (iceCandidateHandler sock m rs). snd e = IceCandidateEvent (fromUserId m) (body m)) \<and>
   offerHandler (sock\<lparr>data_odId := i\<rparr>) m rs = offerHandler sock m rs \<and>
   answerHandler (sock\<lparr>data_odId := i\<rparr>) m rs = answerHandler sock m rs \<and>
   iceCandidateHandler (sock\<lparr>data_odId := i\<rparr>) m rs = iceCandidateHandler sock m rs"
  by (auto simp add: offerHandler_def answerHandler_def iceCandidateHandler_def targetSocket_def
      split: option.splits)

text \<open>
  An instance: an answer relayed from the socket of \<open>u1\<close> to \<open>u2\<close>.
\<close>

theorem relay_forwards_client_fromUserId_witness:
  "(IoTo ''s2'', AnswerEvent (Some ''u3'') ''answer'') \<in>
     set (answerHandler ((exSocket ''s1'')\<lparr>data_roomId := Some ''abcd1234''\<rparr>)
            \<lparr>targetUserId = Some ''u2'', body = ''answer'', fromUserId = Some ''u3''\<rparr>
            (exRooms [(''u1'', exAnn), (''u2'', exBob)])) \<and>
   snd (IoTo ''s2'', AnswerEvent (Some ''u3'') ''answer'') =
     AnswerEvent
       (fromUserId \<lparr>targetUserId = Some ''u2'', body = ''answer'', fromUserId = Some ''u3''\<rparr>)
       (body \<lparr>targetUserId = Some ''u2'', body = ''answer'', fromUserId = Some ''u3''\<rparr>)"
proof -
  let ?sock = "(exSocket ''s1'')\<lparr>data_roomId := Some ''abcd1234''\<rparr>"
  let ?m = "\<lparr>targetUserId = Some ''u2'', body = ''answer'', fromUserId = Some ''u3''\<rparr>"
  let ?rs = "exRooms [(''u1'', exAnn), (''u2'', exBob)]"
  have h: "(IoTo ''s2'', AnswerEvent (Some ''u3'') ''answer'') \<in> set (answerHandler ?sock ?m ?rs)"
    by (simp add: ex_defs answerHandler_def targetSocket_def getParticipantSocketId_def)
  show ?thesis
    using relay_forwards_client_fromUserId[of ?sock ?m ?rs None] h by simp
qed

text \<open>
  C3 as stated fails: the socket registered for \<open>u1\<close> sends an offer that names \<open>u3\<close>
  as its sender, and \<open>u2\<close> receives \<open>u3\<close>; two messages that differ only in
  \<^verbatim>\<open>fromUserId\<close> are delivered with different senders.
\<close>

theorem relay_spoofed_sender_counterexample:
  "offerHandler ((exSocket ''s1'')\<lparr>data_roomId := Some ''abcd1234'', data_odId := Some ''u1''\<rparr>)
     \<lparr>targetUserId = Some ''u2'', body = ''offer'', fromUserId = Some ''u3''\<rparr>
     (exRooms [(''u1'', exAnn), (''u2'', exBob)]) =
     [(IoTo ''s2'', OfferEvent (Some ''u3'') ''offer'')] \<and>
   offerHandler ((exSocket ''s1'')\<lparr>data_roomId := Some ''abcd1234'', data_odId := Some ''u1''\<rparr>)
     \<lparr>targetUserId = Some ''u2'', body = ''offer'', fromUserId = Some ''u1''\<rparr>
     (exRooms [(''u1'', exAnn), (''u2'', exBob)]) =
     [(IoTo ''s2'', OfferEvent (Some ''u1'') ''offer'')]"
  by (simp add: ex_defs offerHandler_def targetSocket_def getParticipantSocketId_def)

text \<open>
  C4. After every sequence of joins and leaves on one room id, from the empty state, the
  participant count of \<open>getStats\<close> and the length of the room's participant list equal the
  number of identities joined and not left since (\<open>specMembers\<close>, which holds each identity
  once), the room manager finds exactly those identities in the room, and the count is at
  most 4.
\<close>

theorem stats_counts_joined_members:
  "totalParticipants (getStats (runRoom rid ops)) = length (specMembers ops) \<and>
   length (getParticipantsList rid (runRoom rid ops)) = length (specMembers ops) \<and>
   distinct (specMembers ops) \<and>
   (hasParticipant rid u (runRoom rid ops) \<longleftrightarrow> u \<in> set (specMembers ops)) \<and>
   totalParticipants (getStats (runRoom rid ops)) \<le> 4"
proof -
  have inv: "roomInv rid (runRoom rid ops) (specMembers ops)"
    by (rule roomInv_run)
  have d: "distinct (specMembers ops)" and l: "length (specMembers ops) \<le> 4"
    using inv by (auto simp add: roomInv_def)
  have t: "totalParticipants (getStats (runRoom rid ops)) = length (specMembers ops)"
    using inv by (auto simp add: roomInv_def getStats_def) (metis length_map)
  have g: "length (getParticipantsList rid (runRoom rid ops)) = length (specMembers ops)"
    using inv by (auto simp add: roomInv_def getParticipantsList_def) (metis length_map)
  have m: "hasParticipant rid u (runRoom rid ops) \<longleftrightarrow> u \<in> set (specMembers ops)"
    using inv
    by (auto simp add: roomInv_def hasParticipant_def map_of_eq_None_iff image_iff
        simp flip: set_map)
  show ?thesis using d l t g m by simp
qed

text \<open>
  An instance: four joins, a fifth that is refused, a leave and a reconnection.
\<close>

theorem stats_counts_joined_members_witness:
  "specMembers [Join 0 exAnn, Join 1 exBob, Join 2 exCat, Join 3 exDan,
                Join 4 \<lparr>odId = ''u5'', name = ''Eve'', socketId = ''s5''\<rparr>, Leave ''u2'',
                Join 5 (exAnn\<lparr>socketId := ''s9''\<rparr>)] = [''u1'', ''u3'', ''u4''] \<and>
   totalParticipants (getStats (runRoom ''abcd1234''
      [Join 0 exAnn, Join 1 exBob, Join 2 exCat, Join 3 exDan,
       Join 4 \<lparr>odId = ''u5'', name = ''Eve'', socketId = ''s5''\<rparr>, Leave ''u2'',
       Join 5 (exAnn\<lparr>socketId := ''s9''\<rparr>)])) = 3"
proof -
  let ?ops = "[Join 0 exAnn, Join 1 exBob, Join 2 exCat, Join 3 exDan,
                Join 4 \<lparr>odId = ''u5'', name = ''Eve'', socketId = ''s5''\<rparr>, Leave ''u2'',
                Join 5 (exAnn\<lparr>socketId := ''s9''\<rparr>)]"
  have s: "specMembers ?ops = [''u1'', ''u3'', ''u4'']"
    by (simp add: specMembers_def ex_defs)
  show ?thesis
    using stats_counts_joined_members[of "''abcd1234''" ?ops] s by simp
qed

text \<open>
  C5. For every room \<open>rid\<close>, target identity \<open>t\<close> and history of joins, reconnections,
  leaves and disconnects in which every join supplies a socket id, the route lookup
  \<open>getParticipantSocketId rid t\<close> returns exactly the socket id supplied by the most recent
  successful join of \<open>t\<close> in \<open>rid\<close> (\<open>lastJoin\<close>), also after intervening reconnections
  of \<open>t\<close>; it returns nothing when \<open>t\<close> has not joined or has been removed since.
\<close>

theorem route_is_last_join:
  "list_all socketGiven ops \<Longrightarrow>
   getParticipantSocketId rid t (run [] ops) = lastJoin rid t ops"
  using route_lastJoin_fold[of ops rid t "[]" None]
  by (simp add: run_def lastJoin_def getParticipantSocketId_def)

text \<open>
  An instance: \<open>u1\<close> joins from \<open>s1\<close>, \<open>u2\<close> joins, \<open>u1\<close> joins again from
  \<open>s3\<close>.
\<close>

theorem route_is_last_join_witness:
  "list_all socketGiven
     [OpJoin 0 ''abcd1234'' \<lparr>odId = ''u1'', name = ''Ann'', socketId = ''s1''\<rparr>,
      OpJoin 1 ''abcd1234'' \<lparr>odId = ''u2'', name = ''Bob'', socketId = ''s2''\<rparr>,
      OpJoin 2 ''abcd1234'' \<lparr>odId = ''u1'', name = ''Ann'', socketId = ''s3''\<rparr>] \<and>
   getParticipantSocketId ''abcd1234'' ''u1''
     (run []
        [OpJoin 0 ''abcd1234'' \<lparr>odId = ''u1'', name = ''Ann'', socketId = ''s1''\<rparr>,
         OpJoin 1 ''abcd1234'' \<lparr>odId = ''u2'', name = ''Bob'', socketId = ''s2''\<rparr>,
         OpJoin 2 ''abcd1234'' \<lparr>odId = ''u1'', name = ''Ann'', socketId = ''s3''\<rparr>]) = Some ''s3''"
proof -
  let ?ops = "[OpJoin 0 ''abcd1234'' \<lparr>odId = ''u1'', name = ''Ann'', socketId = ''s1''\<rparr>,
      OpJoin 1 ''abcd1234'' \<lparr>odId = ''u2'', name = ''Bob'', socketId = ''s2''\<rparr>,
      OpJoin 2 ''abcd1234'' \<lparr>odId = ''u1'', name = ''Ann'', socketId = ''s3''\<rparr>]"
  have h: "list_all socketGiven ?ops" by simp
  have l: "lastJoin ''abcd1234'' ''u1'' ?ops = Some ''s3''"
    by (simp add: lastJoin_def addParticipant_unfold Let_def)
  show ?thesis
    using route_is_last_join[OF h, of "''abcd1234''" "''u1''"] h l by simp
qed

text \<open>
  C6. Removing the only participant left in a room deletes the room at once, and every
  route lookup on that room id returns \<open>None\<close> after any further calls among which there
  is no join of that room; removing an identity that is not in the room (or from a room
  that does not exist) leaves every reachable state of the room manager as it is.
\<close>

theorem last_leave_deletes_room:
  "(map_of rs rid = Some r \<and> map fst (participants r) = [u] \<and>
      list_all (\<lambda>op. \<not> isJoinOf rid op) ops \<longrightarrow>
      \<not> roomExists rid (removeParticipant rid u rs) \<and>
      getParticipantSocketId rid x (run (removeParticipant rid u rs) ops) = None) \<and>
   (\<not> hasParticipant rid u (run [] hist) \<longrightarrow>
      removeParticipant rid u (run [] hist) = run [] hist)"
proof (intro conjI impI)
  assume a: "map_of rs rid = Some r \<and> map fst (participants r) = [u] \<and>
      list_all (\<lambda>op. \<not> isJoinOf rid op) ops"
  then have gone: "map_of (removeParticipant rid u rs) rid = None"
    by (simp add: removeParticipant_last)
  then show "\<not> roomExists rid (removeParticipant rid u rs)"
    by (simp add: roomExists_def)
  have "map_of (run (removeParticipant rid u rs) ops) rid = None"
    using a gone by (simp add: run_keeps_room_absent)
  then show "getParticipantSocketId rid x (run (removeParticipant rid u rs) ops) = None"
    by (simp add: getParticipantSocketId_def)
next
  assume "\<not> hasParticipant rid u (run [] hist)"
  then show "removeParticipant rid u (run [] hist) = run [] hist"
    by (simp add: removeParticipant_absent noEmptyRoom_reachable)
qed

text \<open>
  An instance: \<open>u1\<close> is alone in the room and leaves; \<open>u1\<close> is removed from a room
  that holds \<open>u2\<close> only.
\<close>

theorem last_leave_deletes_room_witness:
  "map_of (exRooms [(''u1'', exAnn)]) ''abcd1234'' =
     Some \<lparr>room_id = ''abcd1234'', participants = [(''u1'', exAnn)], createdAt = 0\<rparr> \<and>
   list_all (\<lambda>op. \<not> isJoinOf ''abcd1234'' op)
     [OpLeave ''abcd1234'' ''u1'', OpJoin 7 ''wxyz5678'' exBob, OpDisconnect ''s1''] \<and>
   \<not> roomExists ''abcd1234'' (removeParticipant ''abcd1234'' ''u1'' (exRooms [(''u1'', exAnn)])) \<and>
   getParticipantSocketId ''abcd1234'' ''u1''
     (run (removeParticipant ''abcd1234'' ''u1'' (exRooms [(''u1'', exAnn)]))
        [OpLeave ''abcd1234'' ''u1'', OpJoin 7 ''wxyz5678'' exBob, OpDisconnect ''s1'']) = None \<and>
   \<not> hasParticipant ''abcd1234'' ''u1'' (run [] [OpJoin 0 ''abcd1234'' exBob]) \<and>
   removeParticipant ''abcd1234'' ''u1'' (run [] [OpJoin 0 ''abcd1234'' exBob]) =
     run [] [OpJoin 0 ''abcd1234'' exBob]"
proof -
  let ?r = "\<lparr>room_id = ''abcd1234'', participants = [(''u1'', exAnn)], createdAt = 0\<rparr>"
  let ?ops = "[OpLeave ''abcd1234'' ''u1'', OpJoin 7 ''wxyz5678'' exBob, OpDisconnect ''s1'']"
  have h1: "map_of (exRooms [(''u1'', exAnn)]) ''abcd1234'' = Some ?r"
    by (simp add: ex_defs)
  have h2: "map fst (participants ?r) = [''u1'']" by simp
  have h3: "list_all (\<lambda>op. \<not> isJoinOf ''abcd1234'' op) ?ops" by simp
  have h4: "\<not> hasParticipant ''abcd1234'' ''u1'' (run [] [OpJoin 0 ''abcd1234'' exBob])"
    by (simp add: run_def hasParticipant_def addParticipant_unfold Let_def ex_defs)
  show ?thesis
    using last_leave_deletes_room[of "exRooms [(''u1'', exAnn)]" "''abcd1234''" ?r "''u1''" ?ops
        "''u1''" "[OpJoin 0 ''abcd1234'' exBob]"] h1 h2 h3 h4
    by simp
qed

text \<open>
  C7, as the code has it. On \<^verbatim>\<open>user-joined\<close> for \<open>b\<close>, a client that has no peer
  connection for \<open>b\<close>, whose socket is connected and whose \<^verbatim>\<open>createOffer\<close> and
  \<^verbatim>\<open>setLocalDescription\<close> succeed constructs exactly one peer connection, which holds the
  offer as its local description, and sends exactly one message, that offer to \<open>b\<close>. In
  every case it sends nothing or one offer to \<open>b\<close>, has a peer connection for \<open>b\<close>
  afterwards (and still at most one per identity), and constructs one only if it had none.
  On its \<^verbatim>\<open>room-joined\<close> snapshot a client sends nothing and constructs no peer
  connection.
\<close>

theorem initiator_is_member_already_present:
  "(isConnected st \<and> rtc_createOffer env = Some offer \<and> rtc_setLocalDescription env \<and>
    map_of (peerConnectionsRef st) b = None \<longrightarrow>
      sent (dispatch env (InUserJoined b n) st) =
        sent st @ [SentOffer \<lparr>targetUserId = Some b, body = offer, fromUserId = Some (userId st)\<rparr>] \<and>
      peerConnectionsRef (dispatch env (InUserJoined b n) st) =
        peerConnectionsRef st @
          [(b, \<lparr>pc_id = constructed st,
                pc_tracks = (case localStream st of None \<Rightarrow> [] | Some tracks \<Rightarrow> tracks),
                localDescription = Some offer, remoteDescription = None, iceCandidates = []\<rparr>)] \<and>
      constructed (dispatch env (InUserJoined b n) st) = constructed st + 1) \<and>
   (sent (dispatch env (InUserJoined b n) st) = sent st \<or>
    (\<exists>offer. sent (dispatch env (InUserJoined b n) st) =
       sent st @ [SentOffer \<lparr>targetUserId = Some b, body = offer, fromUserId = Some (userId st)\<rparr>])) \<and>
   map_of (peerConnectionsRef (dispatch env (InUserJoined b n) st)) b \<noteq> None \<and>
   (distinct (map fst (peerConnectionsRef st)) \<longrightarrow>
      distinct (map fst (peerConnectionsRef (dispatch env (InUserJoined b n) st)))) \<and>
   constructed (dispatch env (InUserJoined b n) st) =
     (if map_of (peerConnectionsRef st) b = None then constructed st + 1 else constructed st) \<and>
   sent (dispatch env (InRoomJoined ps) st) = sent st \<and>
   peerConnectionsRef (dispatch env (InRoomJoined ps) st) = peerConnectionsRef st \<and>
   constructed (dispatch env (InRoomJoined ps) st) = constructed st"
proof (intro conjI impI)
  let ?st = "st\<lparr>knownParticipants := onUserJoined b n (knownParticipants st)\<rparr>"
  have d: "dispatch env (InUserJoined b n) st = createOffer env b ?st"
    by (simp add: dispatch_def handleUserJoined_def)
  {
    assume a: "isConnected st \<and> rtc_createOffer env = Some offer \<and> rtc_setLocalDescription env \<and>
      map_of (peerConnectionsRef st) b = None"
    from a show "sent (dispatch env (InUserJoined b n) st) =
        sent st @ [SentOffer \<lparr>targetUserId = Some b, body = offer, fromUserId = Some (userId st)\<rparr>]"
      by (simp add: d createOffer_def createPeerConnection_def sendOffer_def
          storePeerConnection_def Let_def)
    from a show "peerConnectionsRef (dispatch env (InUserJoined b n) st) =
        peerConnectionsRef st @
          [(b, \<lparr>pc_id = constructed st,
                pc_tracks = (case localStream st of None \<Rightarrow> [] | Some tracks \<Rightarrow> tracks),
                localDescription = Some offer, remoteDescription = None, iceCandidates = []\<rparr>)]"
      by (simp add: d createOffer_def createPeerConnection_def sendOffer_def
          storePeerConnection_def Let_def update_absent update_appended)
    from a show "constructed (dispatch env (InUserJoined b n) st) = constructed st + 1"
      by (simp add: d createOffer_def createPeerConnection_def sendOffer_def
          storePeerConnection_def Let_def)
  }
  show "sent (dispatch env (InUserJoined b n) st) = sent st \<or>
    (\<exists>offer. sent (dispatch env (InUserJoined b n) st) =
       sent st @ [SentOffer \<lparr>targetUserId = Some b, body = offer, fromUserId = Some (userId st)\<rparr>])"
    using createOffer_sends_at_most_one[of env b ?st] by (simp add: d)
  {
    assume "distinct (map fst (peerConnectionsRef st))"
    then show "distinct (map fst (peerConnectionsRef (dispatch env (InUserJoined b n) st)))"
      by (rule distinct_dispatch)
  }
  show "map_of (peerConnectionsRef (dispatch env (InUserJoined b n) st)) b \<noteq> None"
    using createPeerConnection_stored[of b ?st]
    by (auto simp add: d createOffer_def sendOffer_def storePeerConnection_def AList.update_conv'
        split: prod.splits option.splits)
  show "constructed (dispatch env (InUserJoined b n) st) =
     (if map_of (peerConnectionsRef st) b = None then constructed st + 1 else constructed st)"
    using constructed_createPeerConnection[of b ?st]
    by (auto simp add: d createOffer_def sendOffer_def storePeerConnection_def
        split: prod.splits option.splits)
qed (simp_all add: dispatch_def)

text \<open>
  An instance: \<open>u1\<close> learns that \<open>u2\<close> joined.
\<close>

theorem initiator_is_member_already_present_witness:
  "isConnected exClient \<and> rtc_createOffer exRtc = Some ''offer'' \<and>
   rtc_setLocalDescription exRtc \<and> map_of (peerConnectionsRef exClient) ''u2'' = None \<and>
   distinct (map fst (peerConnectionsRef exClient)) \<and>
   map fst (peerConnectionsRef (dispatch exRtc (InUserJoined ''u2'' ''Bob'') exClient)) = [''u2''] \<and>
   sent (dispatch exRtc (InUserJoined ''u2'' ''Bob'') exClient) =
     [SentOffer \<lparr>targetUserId = Some ''u2'', body = ''offer'', fromUserId = Some ''u1''\<rparr>] \<and>
   constructed (dispatch exRtc (InUserJoined ''u2'' ''Bob'') exClient) = 1 \<and>
   sent (dispatch exRtc (InRoomJoined [\<lparr>info_odId = ''u2'', info_name = ''Bob''\<rparr>]) exClient) = []"
proof -
  have h: "isConnected exClient \<and> rtc_createOffer exRtc = Some ''offer'' \<and>
    rtc_setLocalDescription exRtc \<and> map_of (peerConnectionsRef exClient) ''u2'' = None"
    by (simp add: ex_defs)
  have e: "sent exClient = []" "userId exClient = ''u1''" "constructed exClient = 0"
    "peerConnectionsRef exClient = []"
    by (simp_all add: ex_defs)
  show ?thesis
    using initiator_is_member_already_present[of exClient exRtc "''offer''" "''u2''" "''Bob''"
        "[\<lparr>info_odId = ''u2'', info_name = ''Bob''\<rparr>]"] h e
    by simp
qed

text \<open>
  C7 as stated fails: when \<^verbatim>\<open>createOffer\<close> rejects, the handler logs the error and no
  offer is sent; and when \<open>u2\<close> joins a second time, the client constructs no peer
  connection, as it has one for \<open>u2\<close>.
\<close>

theorem no_offer_when_createOffer_rejects_counterexample:
  "sent (dispatch (exRtc\<lparr>rtc_createOffer := None\<rparr>) (InUserJoined ''u2'' ''Bob'') exClient) = [] \<and>
   constructed (dispatch exRtc (InUserJoined ''u2'' ''Bob'')
                  (dispatch exRtc (InUserJoined ''u2'' ''Bob'') exClient)) =
   constructed (dispatch exRtc (InUserJoined ''u2'' ''Bob'') exClient)"
  by (simp add: ex_defs dispatch_def handleUserJoined_def createOffer_def createPeerConnection_def
      sendOffer_def storePeerConnection_def onUserJoined_def Let_def)

text \<open>
  C8. If the client has a peer connection for \<open>u\<close>, \<open>createPeerConnection u\<close> returns it
  and leaves the state, the map of peer connections in it, as it is; a second call returns
  what the first returned and changes nothing; and the map keeps at most one entry per
  identity, after the call and after every run of the client.
\<close>

theorem createPeerConnection_idempotent:
  "(map_of (peerConnectionsRef st) u = Some pc \<longrightarrow> createPeerConnection u st = (pc, st)) \<and>
   createPeerConnection u (snd (createPeerConnection u st)) = createPeerConnection u st \<and>
   (distinct (map fst (peerConnectionsRef st)) \<longrightarrow>
      distinct (map fst (peerConnectionsRef (snd (createPeerConnection u st)))) \<and>
      distinct (map fst (peerConnectionsRef (runClient st evs))))"
  by (simp add: createPeerConnection_existing createPeerConnection_twice
      distinct_createPeerConnection distinct_runClient)

text \<open>
  An instance: the connection for \<open>u2\<close> is asked for twice.
\<close>

theorem createPeerConnection_idempotent_witness:
  "map_of (peerConnectionsRef (snd (createPeerConnection ''u2'' exClient))) ''u2'' =
     Some \<lparr>pc_id = 0, pc_tracks = [''audio'', ''video''], localDescription = None,
           remoteDescription = None, iceCandidates = []\<rparr> \<and>
   distinct (map fst (peerConnectionsRef (snd (createPeerConnection ''u2'' exClient)))) \<and>
   createPeerConnection ''u2'' (snd (createPeerConnection ''u2'' exClient)) =
     (\<lparr>pc_id = 0, pc_tracks = [''audio'', ''video''], localDescription = None,
           remoteDescription = None, iceCandidates = []\<rparr>, snd (createPeerConnection ''u2'' exClient)) \<and>
   distinct (map fst (peerConnectionsRef
     (runClient (snd (createPeerConnection ''u2'' exClient))
        [(exRtc, InUserJoined ''u2'' ''Bob''), (exRtc, InOffer ''u3'' ''offer'')])))"
proof -
  let ?st = "snd (createPeerConnection ''u2'' exClient)"
  let ?pc = "\<lparr>pc_id = 0, pc_tracks = [''audio'', ''video''], localDescription = None,
           remoteDescription = None, iceCandidates = []\<rparr>"
  have h1: "map_of (peerConnectionsRef ?st) ''u2'' = Some ?pc"
    by (simp add: ex_defs createPeerConnection_def Let_def)
  have h2: "distinct (map fst (peerConnectionsRef ?st))"
    by (simp add: ex_defs createPeerConnection_def Let_def)
  show ?thesis
    using createPeerConnection_idempotent[of ?st "''u2''" ?pc
        "[(exRtc, InUserJoined ''u2'' ''Bob''), (exRtc, InOffer ''u3'' ''offer'')]"] h1 h2
    by simp
qed

text \<open>
  C9. A \<^verbatim>\<open>join-room\<close> request that carries no payload (or \<^verbatim>\<open>null\<close>) has neither
  room id nor user id, and the listener throws a \<^verbatim>\<open>TypeError\<close> while it destructures
  its argument, before the validation: no \<^verbatim>\<open>room-error\<close> is emitted, where the claim
  has one sent to the requesting client. A request whose payload is there and whose room
  id or user id is missing (or empty) is answered with one \<^verbatim>\<open>room-error\<close>, emitted to
  the requesting socket only, and leaves the rooms and the socket's data as they were.
\<close>

theorem join_without_payload_throws:
  "joinRoomListener now sock None rs = Inl TypeError \<and>
   (\<not> truthy (jr_roomId m) \<or> \<not> truthy (jr_userId m) \<longrightarrow>
      joinRoomListener now sock (Some m) rs =
        Inr (sock, rs, [(SocketEmit (socket_id sock), RoomError ''Invalid room ID or user ID'')]))"
  by (simp add: joinRoomListener_def destructured_def joinRoomHandler_invalid)

text \<open>
  An instance: a request with no payload and a request without room id, from the socket
  \<open>s1\<close> while \<open>u1\<close> is in the room.
\<close>

theorem join_without_payload_throws_witness:
  "joinRoomListener 0 (exSocket ''s1'') None (exRooms [(''u1'', exAnn)]) = Inl TypeError \<and>
   \<not> truthy (jr_roomId \<lparr>jr_roomId = None, jr_userId = Some ''u1'', jr_name = None\<rparr>) \<and>
   joinRoomListener 0 (exSocket ''s1'')
     (Some \<lparr>jr_roomId = None, jr_userId = Some ''u1'', jr_name = None\<rparr>)
     (exRooms [(''u1'', exAnn)]) =
     Inr (exSocket ''s1'', exRooms [(''u1'', exAnn)],
          [(SocketEmit ''s1'', RoomError ''Invalid room ID or user ID'')])"
proof -
  have h: "\<not> truthy (jr_roomId \<lparr>jr_roomId = None, jr_userId = Some ''u1'', jr_name = None\<rparr>)"
    by (simp add: truthy_def)
  have i: "socket_id (exSocket ''s1'') = ''s1''"
    by (simp add: exSocket_def)
  show ?thesis
    using h i
      join_without_payload_throws[of 0 "exSocket ''s1''" "exRooms [(''u1'', exAnn)]"
        "\<lparr>jr_roomId = None, jr_userId = Some ''u1'', jr_name = None\<rparr>"]
    by simp
qed

text \<open>
  C10. The participant list of a room is the same in two states of the room manager that
  differ only in the socket ids they store, and so are the payloads of the events the join
  handler emits (\<^verbatim>\<open>room-joined\<close> to the joiner, \<^verbatim>\<open>user-joined\<close> to the others), whatever
  the socket ids of the joining connections: the lists carry \<open>odId\<close> and \<open>name\<close> only.
\<close>

theorem participants_list_hides_socketId:
  assumes "eraseSocketIds rs1 = eraseSocketIds rs2"
  shows "getParticipantsList rid rs1 = getParticipantsList rid rs2 \<and>
         map snd (snd (snd (joinRoomHandler now (sock\<lparr>socket_id := s1\<rparr>) m rs1))) =
         map snd (snd (snd (joinRoomHandler now (sock\<lparr>socket_id := s2\<rparr>) m rs2)))"
proof
  show "getParticipantsList rid rs1 = getParticipantsList rid rs2"
    using assms getParticipantsList_erase by metis
next
  have a: "fst (addParticipant now r p rs1) = fst (addParticipant now r (p\<lparr>socketId := s\<rparr>) rs2)"
    for r p s
  proof -
    have "eraseParticipant p = eraseParticipant (p\<lparr>socketId := s\<rparr>)"
      by (simp add: eraseParticipant_def)
    then show ?thesis
      using addParticipant_erase[of now r p rs1]
        addParticipant_erase[of now r "p\<lparr>socketId := s\<rparr>" rs2] assms
      by (metis fst_conv)
  qed
  show "map snd (snd (snd (joinRoomHandler now (sock\<lparr>socket_id := s1\<rparr>) m rs1))) =
         map snd (snd (snd (joinRoomHandler now (sock\<lparr>socket_id := s2\<rparr>) m rs2)))"
  proof (cases "\<not> truthy (jr_roomId m) \<or> \<not> truthy (jr_userId m)")
    case True
    then show ?thesis by (auto simp add: joinRoomHandler_def)
  next
    case False
    then obtain rid' uid where ids: "jr_roomId m = Some rid'" "jr_userId m = Some uid"
      by (auto simp: truthy_def split: option.splits)
    let ?p = "\<lparr>odId = uid, name = displayName (jr_name m) uid, socketId = s1\<rparr>"
    have "fst (addParticipant now rid' ?p rs1) =
          fst (addParticipant now rid' (?p\<lparr>socketId := s2\<rparr>) rs2)"
      by (rule a)
    then show ?thesis using False ids
      by (auto simp add: joinRoomHandler_def split: prod.splits sum.splits)
  qed
qed

text \<open>
  An instance: two states that store different socket ids for \<open>u1\<close>.
\<close>

theorem participants_list_hides_socketId_witness:
  "eraseSocketIds (exRooms [(''u1'', exAnn)]) =
     eraseSocketIds (exRooms [(''u1'', exAnn\<lparr>socketId := ''s7''\<rparr>)]) \<and>
   getParticipantsList ''abcd1234'' (exRooms [(''u1'', exAnn)]) =
     getParticipantsList ''abcd1234'' (exRooms [(''u1'', exAnn\<lparr>socketId := ''s7''\<rparr>)]) \<and>
   getParticipantsList ''abcd1234'' (exRooms [(''u1'', exAnn)]) =
     [\<lparr>info_odId = ''u1'', info_name = ''Ann''\<rparr>]"
proof -
  have h: "eraseSocketIds (exRooms [(''u1'', exAnn)]) =
     eraseSocketIds (exRooms [(''u1'', exAnn\<lparr>socketId := ''s7''\<rparr>)])"
    by (simp add: eraseSocketIds_def eraseRoom_def eraseParticipant_def ex_defs)
  have v: "getParticipantsList ''abcd1234'' (exRooms [(''u1'', exAnn)]) =
     [\<lparr>info_odId = ''u1'', info_name = ''Ann''\<rparr>]"
    by (simp add: getParticipantsList_def ex_defs)
  show ?thesis
    using participants_list_hides_socketId[OF h, of "''abcd1234''"] h v by simp
qed

end
